theory Spec2Isabelle
  imports Main "HOL-Library.Sublist" "HOL-Library.AList"
begin

section \<open>Python strings\<close>

text \<open>
  A Python \<open>str\<close> is modelled as a \<open>string\<close> (a list of 8-bit characters) holding
  ASCII text; a code point beyond ASCII stands as its UTF-8 bytes, all of which are
  \<open>\<ge> 0x80\<close>. The character classes below are the ASCII part of Python's: the
  whitespace of \<open>str.strip()\<close> and \<open>str.split()\<close> (tab, LF, VT, FF, CR, FS, GS, RS, US,
  space) and the decimal digits of \<open>str.isdigit()\<close>.
\<close>

definition py_isspace :: "char \<Rightarrow> bool" where
  "py_isspace c =
     (let n = (of_char c :: nat) in (9 \<le> n \<and> n \<le> 13) \<or> (28 \<le> n \<and> n \<le> 32))"

definition py_isdigit_char :: "char \<Rightarrow> bool" where
  "py_isdigit_char c = (let n = (of_char c :: nat) in 48 \<le> n \<and> n \<le> 57)"


text \<open>\<open>s.strip()\<close>, \<open>s.rstrip('/')\<close>.\<close>

definition py_strip :: "string \<Rightarrow> string" where
  "py_strip s = rev (dropWhile py_isspace (rev (dropWhile py_isspace s)))"

definition py_rstrip_char :: "char \<Rightarrow> string \<Rightarrow> string" where
  "py_rstrip_char c s = rev (dropWhile (\<lambda>x. x = c) (rev s))"

text \<open>
  \<open>s.split()\<close> with no argument: the maximal runs of non-whitespace characters, in
  order; never an empty string among them.
\<close>

fun py_split_acc :: "string \<Rightarrow> string \<Rightarrow> string list" where
  "py_split_acc cur [] = (if cur = [] then [] else [rev cur])"
| "py_split_acc cur (c # cs) =
     (if py_isspace c
      then (if cur = [] then py_split_acc [] cs else rev cur # py_split_acc [] cs)
      else py_split_acc (c # cur) cs)"

definition py_split :: "string \<Rightarrow> string list" where
  "py_split s = py_split_acc [] s"

text \<open>
  \<open>s.split(sep)\<close> for a one-character separator: always at least one field, empty
  fields kept.
\<close>

fun py_split_on :: "char \<Rightarrow> string \<Rightarrow> string list" where
  "py_split_on sep [] = [[]]"
| "py_split_on sep (c # cs) =
     (if c = sep then [] # py_split_on sep cs
      else (case py_split_on sep cs of
              f # fs \<Rightarrow> (c # f) # fs
            | [] \<Rightarrow> [[c]]))"


section \<open>Module path escaping\<close>

text \<open>
  \<^verbatim>\<open>def unescape_module_path(path): return re.sub(r'!([a-z])', lambda m: m.group(1).upper(), path)\<close>
  \<^verbatim>\<open>def escape_module_path(path):   return re.sub(r'([A-Z])', lambda m: '!' + m.group(1).lower(), path)\<close>

  \<open>re.sub\<close> scans from the left and replaces the non-overlapping matches. The classes
  \<open>[A-Z]\<close> and \<open>[a-z]\<close> are the ASCII letters, on which \<open>lower()\<close> adds 32 and \<open>upper()\<close>
  subtracts 32.
\<close>

definition is_ascii_upper :: "char \<Rightarrow> bool" where
  "is_ascii_upper c = (let n = (of_char c :: nat) in 65 \<le> n \<and> n \<le> 90)"

definition is_ascii_lower :: "char \<Rightarrow> bool" where
  "is_ascii_lower c = (let n = (of_char c :: nat) in 97 \<le> n \<and> n \<le> 122)"

definition ascii_lower :: "char \<Rightarrow> char" where
  "ascii_lower c = char_of ((of_char c :: nat) + 32)"

definition ascii_upper :: "char \<Rightarrow> char" where
  "ascii_upper c = char_of ((of_char c :: nat) - 32)"

fun escape_module_path :: "string \<Rightarrow> string" where
  "escape_module_path [] = []"
| "escape_module_path (c # cs) =
     (if is_ascii_upper c then CHR ''!'' # ascii_lower c # escape_module_path cs
      else c # escape_module_path cs)"

fun unescape_module_path :: "string \<Rightarrow> string" where
  "unescape_module_path (c # d # cs) =
     (if c = CHR ''!'' \<and> is_ascii_lower d then ascii_upper d # unescape_module_path cs
      else c # unescape_module_path (d # cs))"
| "unescape_module_path cs = cs"

section \<open>Checksum file\<close>

definition sanitize_module_name :: "string \<Rightarrow> string" where
  "sanitize_module_name name =
     (if name = [] then name
      else (let stripped = py_strip name in
            if length stripped \<ge> 2 \<and> hd stripped = CHR 0x22 \<and> last stripped = CHR 0x22
            then butlast (tl stripped)
            else stripped))"

record entry_types =
  has_source :: bool
  has_gomod :: bool

type_synonym module_key = "string \<times> string"

definition go_sum_entry :: "string \<Rightarrow> (module_key \<times> bool) option" where
  "go_sum_entry raw =
     (let line = py_strip raw in
      if line = [] \<or> prefix ''//'' line then None
      else (case py_split line of
              [module_path, version, h] \<Rightarrow>
                (let is_gomod_entry = suffix ''/go.mod'' version;
                     base_version = (if is_gomod_entry then take (length version - 7) version
                                     else version)
                 in Some ((sanitize_module_name module_path, base_version), is_gomod_entry))
            | _ \<Rightarrow> None))"

definition record_entry ::
  "(module_key \<times> entry_types) list \<Rightarrow> module_key \<Rightarrow> bool \<Rightarrow> (module_key \<times> entry_types) list" where
  "record_entry all_entries key is_gomod_entry =
     (let old = (case map_of all_entries key of
                   None \<Rightarrow> \<lparr>has_source = False, has_gomod = False\<rparr>
                 | Some e \<Rightarrow> e);
          new = (if is_gomod_entry then old\<lparr>has_gomod := True\<rparr> else old\<lparr>has_source := True\<rparr>)
      in AList.update key new all_entries)"

fun first_pass ::
  "string list \<Rightarrow> (module_key \<times> entry_types) list \<Rightarrow> (module_key \<times> entry_types) list" where
  "first_pass [] all_entries = all_entries"
| "first_pass (raw # rest) all_entries =
     (case go_sum_entry raw of
        None \<Rightarrow> first_pass rest all_entries
      | Some (key, is_gomod_entry) \<Rightarrow> first_pass rest (record_entry all_entries key is_gomod_entry))"

fun second_pass ::
  "(module_key \<times> entry_types) list \<Rightarrow> module_key set \<times> module_key set
     \<Rightarrow> module_key set \<times> module_key set" where
  "second_pass [] acc = acc"
| "second_pass ((key, et) # rest) (modules_with_source, modules_with_gomod_only) =
     (if has_source et then second_pass rest (insert key modules_with_source, modules_with_gomod_only)
      else if has_gomod et then second_pass rest (modules_with_source, insert key modules_with_gomod_only)
      else second_pass rest (modules_with_source, modules_with_gomod_only))"

definition parse_go_sum :: "string list option \<Rightarrow> module_key set \<times> module_key set" where
  "parse_go_sum go_sum =
     (case go_sum of
        None \<Rightarrow> ({}, {})
      | Some lines \<Rightarrow> second_pass (first_pass lines []) ({}, {}))"

definition go_sum_entries :: "string list \<Rightarrow> (module_key \<times> bool) list" where
  "go_sum_entries lines = List.map_filter go_sum_entry lines"

text \<open>A small checksum file, as the lines that iterating over the file yields.\<close>

definition example_go_sum :: "string list" where
  "example_go_sum =
     [''github.com/a/b v1.0.0 h1:x=\<newline>'',
      ''github.com/a/b v1.0.0/go.mod h1:y=\<newline>'',
      ''// not a checksum line\<newline>'',
      ''github.com/c/d v2.0.0/go.mod h1:z=\<newline>'']"

text \<open>
  What the first pass has recorded for a key so far: the two flags of its entry, both
  false for a key not yet in the dictionary.
\<close>

definition seen_source :: "(module_key \<times> entry_types) list \<Rightarrow> module_key \<Rightarrow> bool" where
  "seen_source al k = (case map_of al k of None \<Rightarrow> False | Some e \<Rightarrow> has_source e)"

definition seen_gomod :: "(module_key \<times> entry_types) list \<Rightarrow> module_key \<Rightarrow> bool" where
  "seen_gomod al k = (case map_of al k of None \<Rightarrow> False | Some e \<Rightarrow> has_gomod e)"

section \<open>Exceptions and external commands\<close>

text \<open>The exceptions of the modelled code paths.\<close>

datatype exn = ValueError | OverflowError | NameError | IndexError | CalledProcessError | TimeoutExpired | OSError

text \<open>
  What one \<open>subprocess.run(..., capture_output=True, text=True, timeout=t)\<close> can do: the
  command exits with a return code and its standard output, it runs into the timeout
  (\<open>subprocess.TimeoutExpired\<close>), or it cannot be started (an \<open>OSError\<close>, for example no
  \<open>git\<close> on the path). With \<open>check=True\<close> a non-zero return code raises
  \<open>subprocess.CalledProcessError\<close>.
\<close>

datatype proc = Exited int string | TimedOut | NotStarted

definition run_checked :: "proc \<Rightarrow> exn + string" where
  "run_checked p =
     (case p of
        Exited rc out \<Rightarrow> (if rc = 0 then Inr out else Inl CalledProcessError)
      | TimedOut \<Rightarrow> Inl TimeoutExpired
      | NotStarted \<Rightarrow> Inl OSError)"

text \<open>
  \<open>s.splitlines()\<close>: the lines of \<open>s\<close> without their line ends; a line ends at LF, CR,
  CR LF, VT, FF, FS, GS or RS, and a final line end opens no empty last line.
\<close>

definition py_islinebreak :: "char \<Rightarrow> bool" where
  "py_islinebreak c =
     (let n = (of_char c :: nat) in (10 \<le> n \<and> n \<le> 13) \<or> (28 \<le> n \<and> n \<le> 30))"

fun py_splitlines_acc :: "string \<Rightarrow> string \<Rightarrow> string list" where
  "py_splitlines_acc cur [] = (if cur = [] then [] else [rev cur])"
| "py_splitlines_acc cur (c # cs) =
     (if c = CHR 0x0D \<and> cs \<noteq> [] \<and> hd cs = CHR 0x0A
      then rev cur # py_splitlines_acc [] (tl cs)
      else if py_islinebreak c then rev cur # py_splitlines_acc [] cs
      else py_splitlines_acc (c # cur) cs)"

definition py_splitlines :: "string \<Rightarrow> string list" where
  "py_splitlines s = py_splitlines_acc [] s"

section \<open>Dates of pseudo-versions\<close>

text \<open>
  \<open>datetime.strptime(s, "%Y%m%d%H%M%S")\<close> on a string of 14 ASCII digits, which is what
  \<open>parse_pseudo_version_tag\<close> hands on: the fields are four digits of year and two each of
  month, day, hour, minute and second; a field out of range (year 0, month 13, 30 February,
  second 60) is a \<open>ValueError\<close>. Strings of any other shape are not what the callers pass;
  the model gives them \<open>ValueError\<close> too.
\<close>

record datetime =
  year :: int
  month :: int
  day :: int
  hour :: int
  minute :: int
  second :: int

definition digits_value :: "string \<Rightarrow> int" where
  "digits_value s = foldl (\<lambda>acc c. 10 * acc + ((of_char c :: int) - 48)) 0 s"

definition is_leap :: "int \<Rightarrow> bool" where
  "is_leap y = (y mod 4 = 0 \<and> (y mod 100 \<noteq> 0 \<or> y mod 400 = 0))"

definition days_in_month :: "int \<Rightarrow> int \<Rightarrow> int" where
  "days_in_month y m =
     (if m = 2 then (if is_leap y then 29 else 28)
      else if m = 4 \<or> m = 6 \<or> m = 9 \<or> m = 11 then 30
      else 31)"

definition strptime :: "string \<Rightarrow> exn + datetime" where
  "strptime s =
     (if length s = 14 \<and> list_all py_isdigit_char s then
        (let y = digits_value (take 4 s);
             mo = digits_value (take 2 (drop 4 s));
             d = digits_value (take 2 (drop 6 s));
             h = digits_value (take 2 (drop 8 s));
             mi = digits_value (take 2 (drop 10 s));
             sec = digits_value (take 2 (drop 12 s))
         in if 1 \<le> y \<and> 1 \<le> mo \<and> mo \<le> 12 \<and> 1 \<le> d \<and> d \<le> days_in_month y mo
               \<and> h \<le> 23 \<and> mi \<le> 59 \<and> sec \<le> 59
            then Inr \<lparr>year = y, month = mo, day = d, hour = h, minute = mi, second = sec\<rparr>
            else Inl ValueError)
      else Inl ValueError)"

text \<open>
  \<open>dt + timedelta(days=n)\<close> goes through the proleptic Gregorian ordinal of the date (day 1
  is 1 January of year 1) and raises \<open>OverflowError\<close> when the result leaves years 1 to
  9999, whose last day has ordinal 3652059. The result is kept as its ordinal and time of
  day, which is what its \<open>isoformat()\<close> spells out.
\<close>

definition days_before_year :: "int \<Rightarrow> int" where
  "days_before_year y = (y - 1) * 365 + (y - 1) div 4 - (y - 1) div 100 + (y - 1) div 400"

definition days_before_month :: "int \<Rightarrow> int \<Rightarrow> int" where
  "days_before_month y m = sum_list (map (days_in_month y) [1..m - 1])"

definition toordinal :: "datetime \<Rightarrow> int" where
  "toordinal dt = days_before_year (year dt) + days_before_month (year dt) (month dt) + day dt"

definition MAXORDINAL :: int where
  "MAXORDINAL = 3652059"

type_synonym moment = "int \<times> int \<times> int \<times> int"

definition datetime_add_days :: "datetime \<Rightarrow> int \<Rightarrow> exn + moment" where
  "datetime_add_days dt n =
     (let days = toordinal dt + n
      in if 0 < days \<and> days \<le> MAXORDINAL then Inr (days, hour dt, minute dt, second dt)
         else Inl OverflowError)"

section \<open>Pseudo-version resolver\<close>

text \<open>
  The repository clones that \<open>resolve_pseudo_version_commit\<close> works on, as the answers of
  the file system and of \<open>git\<close>, each keyed by the URL tried (the clone directory is named
  by a hash of that URL): whether a clone with a \<open>HEAD\<close> is there, and what
  \<open>git fetch --all --quiet\<close>, \<open>git clone --bare --quiet url dir\<close> and
  \<open>git log --all --format='%H %ct' --since=... --until=...\<close> do.
\<close>

record clone_world =
  clone_present :: "string \<Rightarrow> bool"
  git_fetch_all :: "string \<Rightarrow> proc"
  git_clone_bare :: "string \<Rightarrow> proc"
  git_log_window :: "string \<Rightarrow> moment \<Rightarrow> moment \<Rightarrow> proc"

definition get_github_mirror_url :: "string \<Rightarrow> string option" where
  "get_github_mirror_url vcs_url =
     (if sublist ''go.googlesource.com'' vcs_url
      then Some (''https://github.com/golang/''
                 @ last (py_split_on CHR ''/'' (py_rstrip_char CHR ''/'' vcs_url)))
      else None)"

definition urls_to_try :: "string \<Rightarrow> string list" where
  "urls_to_try vcs_url =
     (case get_github_mirror_url vcs_url of
        None \<Rightarrow> [vcs_url]
      | Some github_mirror \<Rightarrow> (if github_mirror = [] then [vcs_url] else [vcs_url, github_mirror]))"

text \<open>
  The scan of the log: the first field of the first line that has two fields or more and
  whose first field starts with the short hash.
\<close>

fun find_commit :: "string list \<Rightarrow> string \<Rightarrow> string option" where
  "find_commit [] short_commit = None"
| "find_commit (line # rest) short_commit =
     (if line = [] then find_commit rest short_commit
      else (case py_split line of
              full_hash # f # fs \<Rightarrow>
                (if prefix short_commit full_hash then Some full_hash
                 else find_commit rest short_commit)
            | _ \<Rightarrow> find_commit rest short_commit))"

text \<open>
  One round of the loop over the URLs: \<open>Inr (Some h)\<close> is \<open>return h\<close>, \<open>Inr None\<close> is
  \<open>continue\<close>, \<open>Inl e\<close> an exception that no handler of the loop catches.
\<close>

definition search_log :: "clone_world \<Rightarrow> moment \<Rightarrow> moment \<Rightarrow> string \<Rightarrow> string \<Rightarrow> exn + string option" where
  "search_log w since until short_commit try_url =
     (case run_checked (git_log_window w try_url since until) of
        Inr out \<Rightarrow> Inr (find_commit (py_splitlines (py_strip out)) short_commit)
      | Inl e \<Rightarrow> (if e = CalledProcessError \<or> e = TimeoutExpired then Inr None else Inl e))"

definition try_one_url :: "clone_world \<Rightarrow> moment \<Rightarrow> moment \<Rightarrow> string \<Rightarrow> string \<Rightarrow> exn + string option" where
  "try_one_url w since until short_commit try_url =
     (if clone_present w try_url then
        (case run_checked (git_fetch_all w try_url) of
           Inr _ \<Rightarrow> search_log w since until short_commit try_url
         | Inl e \<Rightarrow> (if e = CalledProcessError \<or> e = TimeoutExpired
                     then search_log w since until short_commit try_url
                     else Inl e))
      else
        (case run_checked (git_clone_bare w try_url) of
           Inr _ \<Rightarrow> search_log w since until short_commit try_url
         | Inl e \<Rightarrow> (if e = CalledProcessError \<or> e = TimeoutExpired then Inr None else Inl e)))"

fun try_urls :: "clone_world \<Rightarrow> moment \<Rightarrow> moment \<Rightarrow> string \<Rightarrow> string list \<Rightarrow> exn + string option" where
  "try_urls w since until short_commit [] = Inr None"
| "try_urls w since until short_commit (try_url # rest) =
     (case try_one_url w since until short_commit try_url of
        Inr None \<Rightarrow> try_urls w since until short_commit rest
      | r \<Rightarrow> r)"

text \<open>
  The validation at the head of \<open>resolve_pseudo_version_commit\<close>: \<open>Inr (Some (since, until))\<close>
  is the search window, \<open>Inr None\<close> is \<open>return None\<close>. An \<open>OverflowError\<close> of the window
  arithmetic is caught by the inner handler, a \<open>ValueError\<close> by the outer one.
\<close>

definition search_window :: "string \<Rightarrow> exn + (moment \<times> moment) option" where
  "search_window timestamp_str =
     (case strptime timestamp_str of
        Inl e \<Rightarrow> (if e = ValueError then Inr None else Inl e)
      | Inr dt \<Rightarrow>
          (if year dt < 1970 \<or> year dt > 9999 then Inr None
           else if year dt = 1 then Inr None
           else (case datetime_add_days dt (- 1) of
                   Inl e \<Rightarrow> (if e = OverflowError \<or> e = ValueError then Inr None else Inl e)
                 | Inr since \<Rightarrow>
                     (case datetime_add_days dt 1 of
                        Inl e \<Rightarrow> (if e = OverflowError \<or> e = ValueError then Inr None else Inl e)
                      | Inr until \<Rightarrow> Inr (Some (since, until))))))"

definition resolve_pseudo_version_commit ::
  "clone_world \<Rightarrow> string \<Rightarrow> string \<Rightarrow> string \<Rightarrow> exn + string option" where
  "resolve_pseudo_version_commit w vcs_url timestamp_str short_commit =
     (case search_window timestamp_str of
        Inl e \<Rightarrow> Inl e
      | Inr None \<Rightarrow> Inr None
      | Inr (Some (since, until)) \<Rightarrow> try_urls w since until short_commit (urls_to_try vcs_url))"

text \<open>The year field of a 14-digit timestamp, and whether its one-day window leaves the calendar.\<close>

definition timestamp_year :: "string \<Rightarrow> int" where
  "timestamp_year timestamp_str = digits_value (take 4 timestamp_str)"

definition window_overflows :: "string \<Rightarrow> bool" where
  "window_overflows timestamp_str =
     (case strptime timestamp_str of
        Inl e \<Rightarrow> False
      | Inr dt \<Rightarrow> isl (datetime_add_days dt (- 1)) \<or> isl (datetime_add_days dt 1))"

text \<open>
  Scenario: \<open>golang.org/x/tools\<close> at a pseudo-version. No clone is there yet, cloning from
  \<open>go.googlesource.com\<close> fails, cloning the GitHub mirror works and its log of the window
  has two commits.
\<close>

definition tools_hash :: string where
  "tools_hash = ''42c35b4376350123456789abcdef0123456789ab''"

definition tools_world :: clone_world where
  "tools_world =
     \<lparr>clone_present = (\<lambda>u. False),
      git_fetch_all = (\<lambda>u. Exited 0 []),
      git_clone_bare = (\<lambda>u. if u = ''https://github.com/golang/tools'' then Exited 0 []
                            else Exited 128 []),
      git_log_window = (\<lambda>u since until.
         Exited 0 (''9f1c35b4376350123456789abcdef0123456789a 1597473000\<newline>''
                   @ tools_hash @ '' 1597473492\<newline>''))\<rparr>"


section \<open>Remote ref resolver\<close>

definition GO_CMD_TIMEOUT :: nat where
  "GO_CMD_TIMEOUT = 180"

definition GIT_CMD_TIMEOUT :: nat where
  "GIT_CMD_TIMEOUT = 90"

text \<open>
  The globals of \<open>git_ls_remote\<close>: the in-memory cache, a dictionary from (url, ref) to a
  commit hash or \<open>None\<close>, and its dirty flag. \<open>ls_remote_invocations\<close> is not a variable of
  the program: it lists the argument vectors of the \<open>git ls-remote\<close> processes started so
  far, so that what goes over the network can be stated.
\<close>

record ls_state =
  LS_REMOTE_CACHE :: "string \<times> string \<rightharpoonup> string option"
  LS_REMOTE_CACHE_DIRTY :: bool
  ls_remote_invocations :: "string list list"

text \<open>
  What is outside the program: whether a local clone of the URL with a \<open>HEAD\<close> is in the
  clone cache, what \<open>git show-ref --hash ref\<close> does in it (timeout 10 s), and what a
  \<open>git ls-remote\<close> with the given argument vector and timeout does.
\<close>

record remote_world =
  local_clone_present :: "string \<Rightarrow> bool"
  git_show_ref :: "string \<Rightarrow> string \<Rightarrow> proc"
  git_ls_remote_cmd :: "string list \<Rightarrow> nat \<Rightarrow> proc"

text \<open>
  The lookup in the local clone. Any exception on this path is swallowed
  (\<open>except (..., Exception): pass\<close>), so every failure is \<open>None\<close>: fall through to the
  network.
\<close>

definition local_lookup :: "remote_world \<Rightarrow> string \<Rightarrow> string \<Rightarrow> string option" where
  "local_lookup w url ref =
     (if local_clone_present w url then
        (case git_show_ref w url ref of
           Exited rc out \<Rightarrow>
             (if rc = 0 \<and> py_strip out \<noteq> [] then
                (case py_split (py_strip out) of
                   commit_hash # rest \<Rightarrow> Some commit_hash
                 | [] \<Rightarrow> None)
              else None)
         | TimedOut \<Rightarrow> None
         | NotStarted \<Rightarrow> None)
      else None)"

definition refs_to_query :: "string \<Rightarrow> string list" where
  "refs_to_query ref = (if prefix ''refs/tags/'' ref then [ref, ref @ ''^{}''] else [ref])"

definition ls_remote_argv :: "string \<Rightarrow> string \<Rightarrow> string list" where
  "ls_remote_argv url ref = [''git'', ''ls-remote'', url] @ refs_to_query ref"

text \<open>
  The loop over the output lines, on the pair (\<open>tag_object_hash\<close>, \<open>dereferenced_hash\<close>):
  a later line of a kind overwrites an earlier one.
\<close>

fun parse_ls_remote ::
  "string list \<Rightarrow> string option \<times> string option \<Rightarrow> string option \<times> string option" where
  "parse_ls_remote [] acc = acc"
| "parse_ls_remote (line # rest) (tag_object_hash, dereferenced_hash) =
     (if line = [] then parse_ls_remote rest (tag_object_hash, dereferenced_hash)
      else (case py_split line of
              hash_val # ref_name # others \<Rightarrow>
                (if suffix ''^{}'' ref_name
                 then parse_ls_remote rest (tag_object_hash, Some hash_val)
                 else parse_ls_remote rest (Some hash_val, dereferenced_hash))
            | _ \<Rightarrow> parse_ls_remote rest (tag_object_hash, dereferenced_hash)))"

text \<open>\<open>a or b\<close> on optional strings: \<open>a\<close> unless it is \<open>None\<close> or empty.\<close>

definition py_or :: "string option \<Rightarrow> string option \<Rightarrow> string option" where
  "py_or a b = (case a of None \<Rightarrow> b | Some s \<Rightarrow> (if s = [] then b else a))"

definition py_truthy :: "string option \<Rightarrow> bool" where
  "py_truthy a = (case a of None \<Rightarrow> False | Some s \<Rightarrow> s \<noteq> [])"

definition cache_store :: "ls_state \<Rightarrow> string \<times> string \<Rightarrow> string option \<Rightarrow> ls_state" where
  "cache_store st key v =
     st\<lparr>LS_REMOTE_CACHE := (LS_REMOTE_CACHE st)(key \<mapsto> v), LS_REMOTE_CACHE_DIRTY := True\<rparr>"

definition git_ls_remote ::
  "remote_world \<Rightarrow> ls_state \<Rightarrow> string \<Rightarrow> string \<Rightarrow> (exn + string option) \<times> ls_state" where
  "git_ls_remote w st url ref =
     (case LS_REMOTE_CACHE st (url, ref) of
        Some cached \<Rightarrow> (Inr cached, st)
      | None \<Rightarrow>
          (case local_lookup w url ref of
             Some commit_hash \<Rightarrow> (Inr (Some commit_hash), cache_store st (url, ref) (Some commit_hash))
           | None \<Rightarrow>
               (let argv = ls_remote_argv url ref;
                    st1 = st\<lparr>ls_remote_invocations := ls_remote_invocations st @ [argv]\<rparr>
                in case git_ls_remote_cmd w argv GIT_CMD_TIMEOUT of
                     Exited rc out \<Rightarrow>
                       (if rc = 0 then
                          (case parse_ls_remote (py_splitlines (py_strip out)) (None, None) of
                             (tag_object_hash, dereferenced_hash) \<Rightarrow>
                               (let commit_hash = py_or dereferenced_hash tag_object_hash
                                in if py_truthy commit_hash
                                   then (Inr commit_hash, cache_store st1 (url, ref) commit_hash)
                                   else (Inr None, st1)))
                        else (Inr None, cache_store st1 (url, ref) None))
                   | TimedOut \<Rightarrow> (Inr None, cache_store st1 (url, ref) None)
                   | NotStarted \<Rightarrow> (Inl OSError, st1))))"

text \<open>
  A run of lookups one after the other, each against the world as it is at that moment,
  the results dropped: the state the last one leaves.
\<close>

fun lookups :: "ls_state \<Rightarrow> (remote_world \<times> string \<times> string) list \<Rightarrow> ls_state" where
  "lookups st [] = st"
| "lookups st ((w, url, ref) # rest) = lookups (snd (git_ls_remote w st url ref)) rest"

text \<open>
  Reading an output of \<open>git ls-remote\<close>: the first two fields of a line that has two or
  more; the hashes of the peeled lines (ref name ending in \<open>^{}\<close>) and of the other lines,
  in the order of the output.
\<close>

definition ls_remote_fields :: "string \<Rightarrow> (string \<times> string) option" where
  "ls_remote_fields line =
     (if line = [] then None
      else (case py_split line of
              hash_val # ref_name # others \<Rightarrow> Some (hash_val, ref_name)
            | _ \<Rightarrow> None))"

definition peeled_hashes :: "string list \<Rightarrow> string list" where
  "peeled_hashes lines =
     map fst (filter (\<lambda>(h, r). suffix ''^{}'' r) (List.map_filter ls_remote_fields lines))"

definition tag_object_hashes :: "string list \<Rightarrow> string list" where
  "tag_object_hashes lines =
     map fst (filter (\<lambda>(h, r). \<not> suffix ''^{}'' r) (List.map_filter ls_remote_fields lines))"

text \<open>
  Scenario: an annotated tag. Nothing is cached, there is no local clone, and the network
  answers the query for the tag and its peeled form with the tag object and the commit.
\<close>

definition fresh_state :: ls_state where
  "fresh_state = \<lparr>LS_REMOTE_CACHE = Map.empty, LS_REMOTE_CACHE_DIRTY = False,
                   ls_remote_invocations = []\<rparr>"

definition tag_world :: remote_world where
  "tag_world =
     \<lparr>local_clone_present = (\<lambda>url. False),
      git_show_ref = (\<lambda>url ref. NotStarted),
      git_ls_remote_cmd = (\<lambda>argv t.
        if argv = [''git'', ''ls-remote'', ''https://github.com/example/proj'',
                   ''refs/tags/v1.2.3'', ''refs/tags/v1.2.3^{}'']
        then Exited 0 (''aaaaaaaaaaaaaaaaaaaaaaaaaaaaaaaaaaaaaaaa'' @ [CHR 0x09] @ ''refs/tags/v1.2.3\<newline>''
                       @ ''bbbbbbbbbbbbbbbbbbbbbbbbbbbbbbbbbbbbbbbb'' @ [CHR 0x09] @ ''refs/tags/v1.2.3^{}\<newline>'')
        else Exited 128 [])\<rparr>"

definition slow_world :: remote_world where
  "slow_world =
     \<lparr>local_clone_present = (\<lambda>url. False),
      git_show_ref = (\<lambda>url ref. NotStarted),
      git_ls_remote_cmd = (\<lambda>argv t. if t \<le> 90 then TimedOut else Exited 128 [])\<rparr>"

section \<open>Module records, overrides and the metadata cache\<close>








text \<open>An entry of \<open>MODULE_METADATA_CACHE\<close>; a missing field is the empty string.\<close>

record cache_entry =
  ce_vcs_url :: string
  ce_commit :: string
  ce_timestamp :: string
  ce_subdir :: string
  ce_ref :: string









section \<open>Discovery of one module version\<close>


record go_list_info =
  gl_vcs_url :: string
  gl_commit :: string
  gl_timestamp :: string
  gl_subdir :: string
  gl_vcs_ref :: string










section \<open>Sub-directory of a module\<close>



section \<open>Monorepo sub-module synthesis\<close>











section \<open>Commit verifier: cache check and fetch\<close>

text \<open>An entry of the verification cache in its second format.\<close>

record v2_entry =
  verified :: bool
  first_verified :: string
  last_checked :: "string option"
  fetch_method :: string

text \<open>
  The globals of the verifier. \<open>effects\<close> is not a variable of the program: it lists, in
  order, what the verifier has done outside itself, each entry the repository URL whose
  bare cache it worked in and the argument vector of the \<open>git\<close> process started there
  (\<open>unlink\<close> and a file name for a lock file removed).
\<close>

record verify_state =
  VERIFY_REPO_CACHE :: "string set"
  VERIFY_RESULTS :: "string \<times> string \<rightharpoonup> bool"
  VERIFY_COMMIT_CACHE :: "string \<rightharpoonup> bool"
  VERIFY_COMMIT_CACHE_V2 :: "string \<rightharpoonup> v2_entry"
  VERIFY_COMMIT_CACHE_DIRTY :: bool
  VERIFY_CACHE_MAX_AGE_DAYS :: int
  VERIFY_FALLBACK_COMMITS :: "string \<times> string \<rightharpoonup> string"
  VERIFY_FULL_REPOS :: "string set"
  effects :: "(string \<times> string list) list"

text \<open>
  What is outside the verifier. A \<open>git\<close> process and a look at the file system answer
  according to what has been done so far, so both take the list of effects: \<open>git_run\<close> for
  a process in the bare cache of a URL with a timeout in seconds (\<open>None\<close>: no timeout), and
  \<open>path_exists\<close> for a file of that bare cache. The clock is in microseconds;
  \<open>fromisoformat\<close> stands for \<open>datetime.fromisoformat(s.replace('Z', '+00:00'))\<close> followed by
  the subtraction from an aware \<open>now\<close> (\<open>None\<close>: one of them raises), and \<open>isoformat\<close> for
  \<open>datetime.isoformat()\<close>.
\<close>

record verify_world =
  git_run :: "(string \<times> string list) list \<Rightarrow> string \<times> string list \<Rightarrow> nat option \<Rightarrow> proc"
  path_exists :: "(string \<times> string list) list \<Rightarrow> string \<times> string \<Rightarrow> bool"
  clock :: int
  fromisoformat :: "string \<Rightarrow> int option"
  isoformat :: "int \<Rightarrow> string"

definition run_git ::
  "verify_world \<Rightarrow> verify_state \<Rightarrow> string \<Rightarrow> string list \<Rightarrow> nat option \<Rightarrow> proc \<times> verify_state" where
  "run_git w st url argv t =
     (git_run w (effects st) (url, argv) t, st\<lparr>effects := effects st @ [(url, argv)]\<rparr>)"

text \<open>
  \<open>_verify_repo_dir\<close>: the bare cache of a URL is set up once. \<open>git init\<close> and
  \<open>git remote add\<close> run with \<open>check=True\<close>, \<open>git remote set-url\<close> with \<open>check=False\<close>.
\<close>

definition verify_repo_dir :: "verify_world \<Rightarrow> verify_state \<Rightarrow> string \<Rightarrow> exn option \<times> verify_state" where
  "verify_repo_dir w st vcs_url =
     (if vcs_url \<in> VERIFY_REPO_CACHE st then (None, st)
      else if \<not> path_exists w (effects st) (vcs_url, ''config'') then
        (case run_git w st vcs_url [''git'', ''init'', ''--bare''] None of
           (p1, st1) \<Rightarrow>
             (case run_checked p1 of
                Inl e \<Rightarrow> (Some e, st1)
              | Inr out1 \<Rightarrow>
                  (case run_git w st1 vcs_url [''git'', ''remote'', ''add'', ''origin'', vcs_url] None of
                     (p2, st2) \<Rightarrow>
                       (case run_checked p2 of
                          Inl e \<Rightarrow> (Some e, st2)
                        | Inr out2 \<Rightarrow>
                            (None, st2\<lparr>VERIFY_REPO_CACHE := insert vcs_url (VERIFY_REPO_CACHE st2)\<rparr>)))))
      else
        (case run_git w st vcs_url [''git'', ''remote'', ''set-url'', ''origin'', vcs_url] None of
           (p1, st1) \<Rightarrow>
             (case p1 of
                NotStarted \<Rightarrow> (Some OSError, st1)
              | TimedOut \<Rightarrow> (Some TimeoutExpired, st1)
              | Exited rc out \<Rightarrow>
                  (None, st1\<lparr>VERIFY_REPO_CACHE := insert vcs_url (VERIFY_REPO_CACHE st1)\<rparr>))))"

text \<open>
  The value of \<open>cached_verification_passed\<close> after the look at the cache of the second
  format: the entry is verified and either has no \<open>last_checked\<close> or one less than the
  maximal age ago, in whole days.
\<close>

definition cache_is_fresh :: "verify_world \<Rightarrow> verify_state \<Rightarrow> string \<Rightarrow> bool" where
  "cache_is_fresh w st cache_key =
     (case VERIFY_COMMIT_CACHE_V2 st cache_key of
        None \<Rightarrow> False
      | Some cache_entry \<Rightarrow>
          (if verified cache_entry then
             (case last_checked cache_entry of
                None \<Rightarrow> True
              | Some last_checked_str \<Rightarrow>
                  (if last_checked_str = [] then True
                   else (case fromisoformat w last_checked_str of
                           None \<Rightarrow> False
                         | Some checked \<Rightarrow>
                             (clock w - checked) div 86400000000 < VERIFY_CACHE_MAX_AGE_DAYS st)))
           else False))"

text \<open>The legacy cache: a true entry is copied to the second format.\<close>

definition migrate_legacy ::
  "verify_world \<Rightarrow> verify_state \<Rightarrow> string \<Rightarrow> bool \<Rightarrow> bool \<times> verify_state" where
  "migrate_legacy w st cache_key passed =
     (if VERIFY_COMMIT_CACHE st cache_key = Some True then
        (True, st\<lparr>VERIFY_COMMIT_CACHE_V2 := (VERIFY_COMMIT_CACHE_V2 st)(cache_key \<mapsto>
                    \<lparr>verified = True, first_verified = isoformat w (clock w),
                     last_checked = Some (isoformat w (clock w)), fetch_method = ''cached''\<rparr>)\<rparr>)
      else (passed, st))"

text \<open>\<open>_commit_exists\<close>: \<open>git rev-parse --verify target^{commit}\<close> with \<open>check=True\<close>.\<close>

definition commit_exists ::
  "verify_world \<Rightarrow> verify_state \<Rightarrow> string \<Rightarrow> string \<Rightarrow> (exn + bool) \<times> verify_state" where
  "commit_exists w st vcs_url target =
     (case run_git w st vcs_url [''git'', ''rev-parse'', ''--verify'', target @ ''^{commit}''] None of
        (p, st1) \<Rightarrow>
          (case run_checked p of
             Inr out \<Rightarrow> (Inr True, st1)
           | Inl e \<Rightarrow> (if e = CalledProcessError then (Inr False, st1) else (Inl e, st1))))"

text \<open>The removal of stale lock files, and the bookkeeping of a failed verification.\<close>

definition remove_lock :: "verify_world \<Rightarrow> string \<Rightarrow> verify_state \<Rightarrow> string \<Rightarrow> verify_state" where
  "remove_lock w vcs_url st lock_file =
     (if path_exists w (effects st) (vcs_url, lock_file)
      then st\<lparr>effects := effects st @ [(vcs_url, [''unlink'', lock_file])]\<rparr>
      else st)"

definition remove_locks :: "verify_world \<Rightarrow> verify_state \<Rightarrow> string \<Rightarrow> verify_state" where
  "remove_locks w st vcs_url =
     foldl (remove_lock w vcs_url) st [''shallow.lock'', ''index.lock'', ''HEAD.lock'']"

definition record_failure :: "verify_state \<Rightarrow> string \<times> string \<Rightarrow> string \<Rightarrow> verify_state" where
  "record_failure st key cache_key =
     st\<lparr>VERIFY_RESULTS := (VERIFY_RESULTS st)(key \<mapsto> False),
        VERIFY_COMMIT_CACHE := (VERIFY_COMMIT_CACHE st)(cache_key := None),
        VERIFY_COMMIT_CACHE_DIRTY := True\<rparr>"

text \<open>
  How the part of \<open>verify_commit_accessible\<close> up to the fetches ends: it returns a value,
  an exception leaves it, or control goes on to the check that the commit is there (and
  from there to the fallback search and the branch detection, which are not modelled),
  with the locals \<open>commit_fetched\<close> and \<open>cached_verification_passed\<close>.
\<close>

datatype fetch_outcome = Returned bool | Raised exn | Proceeds bool bool

text \<open>
  The handler of a failed fetch of the commit, for a ref hint that starts with
  \<open>refs/tags/\<close>: fetch the tag again and compare what it points to. \<open>None\<close>: the handler goes
  on to the clean-up and \<open>return False\<close>. Where the tag has moved, the correction is stored
  and the \<open>return\<close> statement is reached; its expression
  \<open>('corrected', module_path, version, commit, current_tag_commit)\<close> names \<open>module_path\<close>,
  which is neither a parameter nor a local of \<open>verify_commit_accessible\<close> nor a global of
  the module, so evaluating it raises \<open>NameError\<close>.
\<close>

definition tag_moved_check ::
  "verify_world \<Rightarrow> verify_state \<Rightarrow> string \<Rightarrow> string \<Rightarrow> string \<Rightarrow> fetch_outcome option \<times> verify_state" where
  "tag_moved_check w st vcs_url commit ref_hint =
     (case run_git w st vcs_url [''git'', ''fetch'', ''--depth=1'', ''origin'', ref_hint]
             (Some GIT_CMD_TIMEOUT) of
        (p1, st1) \<Rightarrow>
          (case run_checked p1 of
             Inl e \<Rightarrow> (if e = CalledProcessError then (None, st1) else (Some (Raised e), st1))
           | Inr out1 \<Rightarrow>
               (case run_git w st1 vcs_url [''git'', ''rev-parse'', ''FETCH_HEAD''] (Some 30) of
                  (p2, st2) \<Rightarrow>
                    (case run_checked p2 of
                       Inl e \<Rightarrow> (if e = CalledProcessError then (None, st2) else (Some (Raised e), st2))
                     | Inr out2 \<Rightarrow>
                         (let current_tag_commit = py_strip out2
                          in if current_tag_commit \<noteq> commit
                             then (Some (Raised NameError),
                                   st2\<lparr>VERIFY_FALLBACK_COMMITS :=
                                         (VERIFY_FALLBACK_COMMITS st2)((vcs_url, commit) \<mapsto> current_tag_commit)\<rparr>)
                             else (None, st2))))))"

text \<open>The branch for a ref hint with the commit not yet in the bare cache.\<close>

definition fetch_with_ref ::
  "verify_world \<Rightarrow> verify_state \<Rightarrow> string \<Rightarrow> string \<Rightarrow> string \<Rightarrow> bool \<Rightarrow> fetch_outcome \<times> verify_state" where
  "fetch_with_ref w st vcs_url commit ref_hint passed =
     (case run_git w st vcs_url [''git'', ''fetch'', ''--depth=1'', ''origin'', commit]
             (Some GIT_CMD_TIMEOUT) of
        (p, st1) \<Rightarrow>
          (case run_checked p of
             Inr out \<Rightarrow> (Proceeds True passed, st1)
           | Inl e \<Rightarrow>
               (if e \<noteq> CalledProcessError then (Raised e, st1)
                else
                  (case (if ref_hint \<noteq> [] \<and> prefix ''refs/tags/'' ref_hint
                         then tag_moved_check w st1 vcs_url commit ref_hint
                         else (None, st1)) of
                     (Some ending, st2) \<Rightarrow> (ending, st2)
                   | (None, st2) \<Rightarrow>
                       (Returned False,
                        record_failure (remove_locks w st2 vcs_url) (vcs_url, commit)
                          (vcs_url @ ''|||'' @ commit))))))"

text \<open>The other branch: the fetch of the full history, or of the updates of a full repository.\<close>

definition fetch_history ::
  "verify_world \<Rightarrow> verify_state \<Rightarrow> string \<Rightarrow> string \<Rightarrow> bool \<Rightarrow> fetch_outcome \<times> verify_state" where
  "fetch_history w st vcs_url commit passed =
     (if path_exists w (effects st) (vcs_url, ''shallow'') \<and> vcs_url \<notin> VERIFY_FULL_REPOS st then
        (case run_git w st vcs_url
                [''git'', ''fetch'', ''--unshallow'', ''origin'', ''+refs/heads/*:refs/remotes/origin/*'']
                (Some (GIT_CMD_TIMEOUT * 5)) of
           (p, st1) \<Rightarrow>
             (case run_checked p of
                Inr out \<Rightarrow>
                  (Proceeds True passed, st1\<lparr>VERIFY_FULL_REPOS := insert vcs_url (VERIFY_FULL_REPOS st1)\<rparr>)
              | Inl e \<Rightarrow>
                  (if e = TimeoutExpired \<or> e = CalledProcessError
                   then (Returned False,
                         record_failure (remove_locks w st1 vcs_url) (vcs_url, commit)
                           (vcs_url @ ''|||'' @ commit))
                   else (Raised e, st1))))
      else
        (case run_git w st vcs_url
                [''git'', ''fetch'', ''origin'', ''+refs/heads/*:refs/remotes/origin/*'']
                (Some GIT_CMD_TIMEOUT) of
           (p, st1) \<Rightarrow>
             (case run_checked p of
                Inr out \<Rightarrow> (Proceeds True passed, st1)
              | Inl e \<Rightarrow>
                  (if e = TimeoutExpired \<or> e = CalledProcessError
                   then (Returned False,
                         record_failure (remove_locks w st1 vcs_url) (vcs_url, commit)
                           (vcs_url @ ''|||'' @ commit))
                   else (Raised e, st1)))))"

text \<open>
  \<open>verify_commit_accessible\<close> from its start to the end of the fetches. The parameters
  \<open>version\<close> and \<open>timestamp\<close> are used only after that. The second look at
  \<open>VERIFY_RESULTS\<close>, under the lock, is for other threads; in one thread it finds what the
  first look found.
\<close>

definition verify_commit_accessible ::
  "verify_world \<Rightarrow> verify_state \<Rightarrow> string \<Rightarrow> string \<Rightarrow> string \<Rightarrow> fetch_outcome \<times> verify_state" where
  "verify_commit_accessible w st vcs_url commit ref_hint =
     (case VERIFY_RESULTS st (vcs_url, commit) of
        Some r \<Rightarrow> (Returned r, st)
      | None \<Rightarrow>
          (let cache_key = vcs_url @ ''|||'' @ commit
           in case migrate_legacy w st cache_key (cache_is_fresh w st cache_key) of
                (passed, st1) \<Rightarrow>
                  (case verify_repo_dir w st1 vcs_url of
                     (Some e, st2) \<Rightarrow> (Raised e, st2)
                   | (None, st2) \<Rightarrow>
                       (case commit_exists w st2 vcs_url commit of
                          (Inl e, st3) \<Rightarrow> (Raised e, st3)
                        | (Inr commit_present, st3) \<Rightarrow>
                            (let st4 = (if VERIFY_COMMIT_CACHE st3 cache_key = Some True \<and> \<not> commit_present
                                        then st3\<lparr>VERIFY_COMMIT_CACHE := (VERIFY_COMMIT_CACHE st3)(cache_key := None),
                                                 VERIFY_COMMIT_CACHE_DIRTY := True\<rparr>
                                        else st3)
                             in if \<not> commit_present \<and> ref_hint \<noteq> [] then
                                  (case run_git w st4 vcs_url
                                          [''git'', ''fetch'', ''--depth=1'', ''origin'', ref_hint]
                                          (Some GIT_CMD_TIMEOUT) of
                                     (p, st5) \<Rightarrow>
                                       (case p of
                                          NotStarted \<Rightarrow> (Raised OSError, st5)
                                        | TimedOut \<Rightarrow> fetch_with_ref w st5 vcs_url commit ref_hint passed
                                        | Exited rc out \<Rightarrow> fetch_with_ref w st5 vcs_url commit ref_hint passed))
                                else fetch_history w st4 vcs_url commit passed)))))"

text \<open>
  Scenario: a force-pushed tag. The bare cache is new, the commit that the proxy named is
  gone upstream (fetching it fails), the tag can be fetched and points to another commit.
\<close>

definition old_commit :: string where
  "old_commit = ''aaaaaaaaaaaaaaaaaaaaaaaaaaaaaaaaaaaaaaaa''"

definition new_commit :: string where
  "new_commit = ''bbbbbbbbbbbbbbbbbbbbbbbbbbbbbbbbbbbbbbbb''"

definition moved_tag_world :: verify_world where
  "moved_tag_world =
     \<lparr>git_run = (\<lambda>done (url, argv) t.
        if argv = [''git'', ''rev-parse'', ''--verify'', old_commit @ ''^{commit}''] then Exited 128 []
        else if argv = [''git'', ''fetch'', ''--depth=1'', ''origin'', old_commit] then Exited 128 []
        else if argv = [''git'', ''rev-parse'', ''FETCH_HEAD''] then Exited 0 (new_commit @ ''\<newline>'')
        else Exited 0 []),
      path_exists = (\<lambda>done file. False),
      clock = 1767312000000000,
      fromisoformat = (\<lambda>s. if s = ''2026-01-01T00:00:00+00:00'' then Some 1767225600000000 else None),
      isoformat = (\<lambda>t. ''2026-01-02T00:00:00+00:00'')\<rparr>"

definition new_verifier :: verify_state where
  "new_verifier =
     \<lparr>VERIFY_REPO_CACHE = {}, VERIFY_RESULTS = Map.empty, VERIFY_COMMIT_CACHE = Map.empty,
      VERIFY_COMMIT_CACHE_V2 = Map.empty, VERIFY_COMMIT_CACHE_DIRTY = False,
      VERIFY_CACHE_MAX_AGE_DAYS = 30, VERIFY_FALLBACK_COMMITS = Map.empty,
      VERIFY_FULL_REPOS = {}, effects = []\<rparr>"

text \<open>
  Scenario: the verification cache has a verified entry for the commit, checked one day
  ago; the bare cache is new, the branch can be fetched and upstream no longer has the
  commit.
\<close>

definition gone_world :: verify_world where
  "gone_world =
     \<lparr>git_run = (\<lambda>done (url, argv) t.
        if argv = [''git'', ''rev-parse'', ''--verify'', old_commit @ ''^{commit}''] then Exited 128 []
        else if argv = [''git'', ''fetch'', ''--depth=1'', ''origin'', old_commit] then Exited 128 []
        else Exited 0 []),
      path_exists = (\<lambda>done file. False),
      clock = 1767312000000000,
      fromisoformat = (\<lambda>s. if s = ''2026-01-01T00:00:00+00:00'' then Some 1767225600000000 else None),
      isoformat = (\<lambda>t. ''2026-01-02T00:00:00+00:00'')\<rparr>"

definition cached_verifier :: verify_state where
  "cached_verifier =
     new_verifier\<lparr>VERIFY_COMMIT_CACHE_V2 :=
       [''https://github.com/example/proj|||'' @ old_commit \<mapsto>
          \<lparr>verified = True, first_verified = ''2025-12-01T00:00:00+00:00'',
           last_checked = Some ''2026-01-01T00:00:00+00:00'', fetch_method = ''fetch''\<rparr>]\<rparr>"

section \<open>Properties of module path escaping\<close>

lemma ascii_upper_lower: "is_ascii_upper c \<Longrightarrow> ascii_upper (ascii_lower c) = c"
proof -
  assume u: "is_ascii_upper c"
  then have "(of_char c :: nat) + 32 < 256"
    by (simp add: is_ascii_upper_def Let_def)
  then have "(of_char (ascii_lower c) :: nat) = of_char c + 32"
    by (simp add: ascii_lower_def)
  then show ?thesis
    by (simp add: ascii_upper_def)
qed

lemma is_lower_ascii_lower: "is_ascii_upper c \<Longrightarrow> is_ascii_lower (ascii_lower c)"
proof -
  assume u: "is_ascii_upper c"
  then have "(of_char c :: nat) + 32 < 256"
    by (simp add: is_ascii_upper_def Let_def)
  then have "(of_char (ascii_lower c) :: nat) = of_char c + 32"
    by (simp add: ascii_lower_def)
  with u show ?thesis
    by (simp add: is_ascii_lower_def is_ascii_upper_def Let_def)
qed

lemma unescape_other: "c \<noteq> CHR ''!'' \<Longrightarrow> unescape_module_path (c # cs) = c # unescape_module_path cs"
  by (cases cs) simp_all

text \<open>
  C10. For every module path with no \<open>!\<close> in it, unescaping the escaped path gives the
  path back.
\<close>

theorem unescape_escape_module_path:
  "CHR ''!'' \<notin> set p \<Longrightarrow> unescape_module_path (escape_module_path p) = p"
proof (induction p)
  case Nil
  show ?case by simp
next
  case (Cons c cs)
  then have ih: "unescape_module_path (escape_module_path cs) = cs" and ne: "c \<noteq> CHR ''!''"
    by auto
  show ?case
  proof (cases "is_ascii_upper c")
    case True
    then show ?thesis
      by (simp add: ih is_lower_ascii_lower ascii_upper_lower)
  next
    case False
    then show ?thesis
      by (simp add: ih unescape_other [OF ne])
  qed
qed

theorem unescape_escape_module_path_witness:
  "CHR ''!'' \<notin> set ''github.com/Sirupsen/logrus''
   \<and> escape_module_path ''github.com/Sirupsen/logrus'' = ''github.com/!sirupsen/logrus''
   \<and> unescape_module_path (escape_module_path ''github.com/Sirupsen/logrus'')
       = ''github.com/Sirupsen/logrus''"
proof -
  have h: "CHR ''!'' \<notin> set ''github.com/Sirupsen/logrus''" by simp
  have e: "escape_module_path ''github.com/Sirupsen/logrus'' = ''github.com/!sirupsen/logrus''"
    by code_simp
  show ?thesis
    using h e unescape_escape_module_path [OF h] by simp
qed

section \<open>Properties of the checksum file parser\<close>

lemma seen_source_empty: "seen_source [] k = False"
  by (simp add: seen_source_def)

lemma seen_gomod_empty: "seen_gomod [] k = False"
  by (simp add: seen_gomod_def)

lemma seen_source_record:
  "seen_source (record_entry al k' b) k = (seen_source al k \<or> (k = k' \<and> \<not> b))"
  by (auto simp: seen_source_def record_entry_def Let_def update_conv' split: option.splits)

lemma seen_gomod_record:
  "seen_gomod (record_entry al k' b) k = (seen_gomod al k \<or> (k = k' \<and> b))"
  by (auto simp: seen_gomod_def record_entry_def Let_def update_conv' split: option.splits)

lemma distinct_record: "distinct (map fst al) \<Longrightarrow> distinct (map fst (record_entry al k b))"
  by (simp add: record_entry_def Let_def distinct_update)

lemma go_sum_entries_Cons:
  "go_sum_entries (raw # rest) =
     (case go_sum_entry raw of None \<Rightarrow> go_sum_entries rest | Some e \<Rightarrow> e # go_sum_entries rest)"
  by (simp add: go_sum_entries_def split: option.splits)

lemma seen_source_first_pass:
  "seen_source (first_pass ls al) k = (seen_source al k \<or> (k, False) \<in> set (go_sum_entries ls))"
  by (induction ls arbitrary: al)
     (auto simp: go_sum_entries_Cons seen_source_record go_sum_entries_def split: option.splits)

lemma seen_gomod_first_pass:
  "seen_gomod (first_pass ls al) k = (seen_gomod al k \<or> (k, True) \<in> set (go_sum_entries ls))"
  by (induction ls arbitrary: al)
     (auto simp: go_sum_entries_Cons seen_gomod_record go_sum_entries_def split: option.splits)

lemma distinct_first_pass:
  "distinct (map fst al) \<Longrightarrow> distinct (map fst (first_pass ls al))"
  by (induction ls arbitrary: al) (auto simp: distinct_record split: option.splits)

lemma second_pass_fst:
  "fst (second_pass items (s, i)) = s \<union> {k. \<exists>e. (k, e) \<in> set items \<and> has_source e}"
  by (induction items "(s, i)" arbitrary: s i rule: second_pass.induct) auto

lemma second_pass_snd:
  "snd (second_pass items (s, i)) = i \<union> {k. \<exists>e. (k, e) \<in> set items \<and> \<not> has_source e \<and> has_gomod e}"
  by (induction items "(s, i)" arbitrary: s i rule: second_pass.induct) auto

text \<open>
  C9. \<open>parse_go_sum\<close> puts a (module, version) pair in the modules-with-source set
  exactly when the file has a source entry (a version without the \<open>/go.mod\<close> suffix)
  for it, and in the indirect-only set exactly when the file has a \<open>/go.mod\<close> entry
  for it and no source entry; the two sets are disjoint.
\<close>

theorem parse_go_sum_partition:
  assumes "parse_go_sum (Some lines) = (modules_with_source, modules_with_gomod_only)"
  shows "(k \<in> modules_with_source \<longleftrightarrow> (k, False) \<in> set (go_sum_entries lines))
       \<and> (k \<in> modules_with_gomod_only \<longleftrightarrow>
            (k, True) \<in> set (go_sum_entries lines) \<and> (k, False) \<notin> set (go_sum_entries lines))
       \<and> modules_with_source \<inter> modules_with_gomod_only = {}"
proof -
  let ?items = "first_pass lines []"
  have d: "distinct (map fst ?items)"
    by (rule distinct_first_pass) simp
  have src: "modules_with_source = {k. \<exists>e. (k, e) \<in> set ?items \<and> has_source e}"
    using assms second_pass_fst [of ?items "{}" "{}"] by (simp add: parse_go_sum_def)
  have ind: "modules_with_gomod_only = {k. \<exists>e. (k, e) \<in> set ?items \<and> \<not> has_source e \<and> has_gomod e}"
    using assms second_pass_snd [of ?items "{}" "{}"] by (simp add: parse_go_sum_def)
  have m: "\<And>k e. (k, e) \<in> set ?items \<longleftrightarrow> map_of ?items k = Some e"
    using d by simp
  have s: "\<And>k. (\<exists>e. (k, e) \<in> set ?items \<and> has_source e) \<longleftrightarrow> seen_source ?items k"
    by (auto simp: m seen_source_def split: option.splits)
  have g: "\<And>k. (\<exists>e. (k, e) \<in> set ?items \<and> \<not> has_source e \<and> has_gomod e)
              \<longleftrightarrow> seen_gomod ?items k \<and> \<not> seen_source ?items k"
    by (auto simp: m seen_source_def seen_gomod_def split: option.splits)
  have s0: "\<And>k. seen_source ?items k \<longleftrightarrow> (k, False) \<in> set (go_sum_entries lines)"
    using seen_source_first_pass [of lines "[]"] by (simp add: seen_source_empty)
  have g0: "\<And>k. seen_gomod ?items k \<longleftrightarrow> (k, True) \<in> set (go_sum_entries lines)"
    using seen_gomod_first_pass [of lines "[]"] by (simp add: seen_gomod_empty)
  show ?thesis
    unfolding src ind using s g s0 g0 by auto
qed

theorem parse_go_sum_partition_witness:
  "parse_go_sum (Some example_go_sum) =
     ({(''github.com/a/b'', ''v1.0.0'')}, {(''github.com/c/d'', ''v2.0.0'')})
   \<and> ((''github.com/c/d'', ''v2.0.0''), True) \<in> set (go_sum_entries example_go_sum)
   \<and> ((''github.com/c/d'', ''v2.0.0''), False) \<notin> set (go_sum_entries example_go_sum)
   \<and> ((''github.com/a/b'', ''v1.0.0''), False) \<in> set (go_sum_entries example_go_sum)"
proof -
  have h: "parse_go_sum (Some example_go_sum) =
     ({(''github.com/a/b'', ''v1.0.0'')}, {(''github.com/c/d'', ''v2.0.0'')})"
    by code_simp
  show ?thesis
    using h parse_go_sum_partition [OF h, of "(''github.com/c/d'', ''v2.0.0'')"]
      parse_go_sum_partition [OF h, of "(''github.com/a/b'', ''v1.0.0'')"]
    by simp
qed

section \<open>Properties of the pseudo-version resolver\<close>

lemma strptime_error: "strptime s = Inl e \<Longrightarrow> e = ValueError"
  by (auto simp: strptime_def Let_def split: if_splits)

lemma strptime_year: "strptime s = Inr dt \<Longrightarrow> year dt = timestamp_year s"
  by (auto simp: strptime_def timestamp_year_def Let_def split: if_splits)

lemma datetime_add_days_error: "datetime_add_days dt n = Inl e \<Longrightarrow> e = OverflowError"
  by (auto simp: datetime_add_days_def Let_def split: if_splits)

lemma search_window_total: "search_window s \<noteq> Inl e"
  by (auto simp: search_window_def split: sum.splits if_splits
           dest: strptime_error datetime_add_days_error)

lemma search_window_rejects:
  assumes "timestamp_year s < 1970 \<or> 9999 < timestamp_year s \<or> window_overflows s"
  shows "search_window s = Inr None"
proof (cases "strptime s")
  case (Inl e)
  then show ?thesis
    by (simp add: search_window_def strptime_error)
next
  case (Inr dt)
  have y: "year dt = timestamp_year s"
    using Inr by (rule strptime_year)
  show ?thesis
  proof (cases "timestamp_year s < 1970 \<or> 9999 < timestamp_year s")
    case True
    then show ?thesis
      using Inr y by (auto simp: search_window_def)
  next
    case False
    with assms have "window_overflows s" by simp
    then have o: "isl (datetime_add_days dt (- 1)) \<or> isl (datetime_add_days dt 1)"
      using Inr by (simp add: window_overflows_def)
    show ?thesis
      using Inr o
      by (auto simp: search_window_def split: sum.splits dest: datetime_add_days_error)
  qed
qed

text \<open>
  C7. A 14-digit timestamp whose year is outside 1970 to 9999, or whose window of one day
  either side overflows, makes \<open>resolve_pseudo_version_commit\<close> return \<open>None\<close>: no
  exception leaves the function, whatever the repositories would answer.
\<close>

theorem resolve_pseudo_version_commit_rejects:
  assumes "length timestamp_str = 14" and "list_all py_isdigit_char timestamp_str"
    and "timestamp_year timestamp_str < 1970 \<or> 9999 < timestamp_year timestamp_str
         \<or> window_overflows timestamp_str"
  shows "resolve_pseudo_version_commit w vcs_url timestamp_str short_commit = Inr None"
  using search_window_rejects [OF assms(3)]
  by (simp add: resolve_pseudo_version_commit_def)

theorem resolve_pseudo_version_commit_rejects_witness:
  "timestamp_year ''00010101000000'' = 1
   \<and> resolve_pseudo_version_commit tools_world ''https://go.googlesource.com/tools''
        ''00010101000000'' ''42c35b437635'' = Inr None
   \<and> window_overflows ''99991231235959''
   \<and> resolve_pseudo_version_commit tools_world ''https://go.googlesource.com/tools''
        ''99991231235959'' ''42c35b437635'' = Inr None"
proof -
  have l1: "length ''00010101000000'' = 14" by simp
  have d1: "list_all py_isdigit_char ''00010101000000''" by code_simp
  have y1: "timestamp_year ''00010101000000'' = 1" by code_simp
  have h1: "timestamp_year ''00010101000000'' < 1970 \<or> 9999 < timestamp_year ''00010101000000''
            \<or> window_overflows ''00010101000000''"
    using y1 by simp
  have l2: "length ''99991231235959'' = 14" by simp
  have d2: "list_all py_isdigit_char ''99991231235959''" by code_simp
  have o2: "window_overflows ''99991231235959''" by code_simp
  have h2: "timestamp_year ''99991231235959'' < 1970 \<or> 9999 < timestamp_year ''99991231235959''
            \<or> window_overflows ''99991231235959''"
    using o2 by simp
  show ?thesis
    using y1 o2
      resolve_pseudo_version_commit_rejects [OF l1 d1 h1]
      resolve_pseudo_version_commit_rejects [OF l2 d2 h2]
    by simp
qed








section \<open>Properties of the remote ref resolver\<close>

lemma py_split_acc_nonempty: "x \<in> set (py_split_acc cur s) \<Longrightarrow> x \<noteq> []"
  by (induction s arbitrary: cur) (auto split: if_splits)

lemma py_split_nonempty: "x \<in> set (py_split s) \<Longrightarrow> x \<noteq> []"
  unfolding py_split_def by (rule py_split_acc_nonempty)

lemma ls_remote_fields_hash: "ls_remote_fields line = Some (h, r) \<Longrightarrow> h \<noteq> []"
proof -
  assume "ls_remote_fields line = Some (h, r)"
  then have "h \<in> set (py_split line)"
    by (auto simp: ls_remote_fields_def split: if_splits list.splits)
  then show ?thesis by (rule py_split_nonempty)
qed

lemma parse_ls_remote_step:
  "parse_ls_remote (line # rest) (t, d) =
     (case ls_remote_fields line of
        None \<Rightarrow> parse_ls_remote rest (t, d)
      | Some (h, r) \<Rightarrow> (if suffix ''^{}'' r then parse_ls_remote rest (t, Some h)
                        else parse_ls_remote rest (Some h, d)))"
  by (simp add: ls_remote_fields_def split: list.splits)

lemma peeled_hashes_Cons:
  "peeled_hashes (line # rest) =
     (case ls_remote_fields line of
        None \<Rightarrow> peeled_hashes rest
      | Some (h, r) \<Rightarrow> (if suffix ''^{}'' r then h # peeled_hashes rest else peeled_hashes rest))"
  by (simp add: peeled_hashes_def split: option.splits)

lemma tag_object_hashes_Cons:
  "tag_object_hashes (line # rest) =
     (case ls_remote_fields line of
        None \<Rightarrow> tag_object_hashes rest
      | Some (h, r) \<Rightarrow> (if suffix ''^{}'' r then tag_object_hashes rest
                        else h # tag_object_hashes rest))"
  by (simp add: tag_object_hashes_def split: option.splits)

lemma parse_ls_remote_last:
  "parse_ls_remote lines (t, d) =
     (if tag_object_hashes lines = [] then t else Some (last (tag_object_hashes lines)),
      if peeled_hashes lines = [] then d else Some (last (peeled_hashes lines)))"
proof (induction lines arbitrary: t d)
  case Nil
  show ?case by (simp add: peeled_hashes_def tag_object_hashes_def)
next
  case (Cons line rest)
  show ?case
    unfolding parse_ls_remote_step peeled_hashes_Cons tag_object_hashes_Cons
    by (simp add: Cons.IH split: option.splits)
qed

lemma peeled_hashes_nonempty: "h \<in> set (peeled_hashes lines) \<Longrightarrow> h \<noteq> []"
  by (auto simp: peeled_hashes_def map_filter_def dest: ls_remote_fields_hash)

text \<open>
  C5. For a ref that starts with \<open>refs/tags/\<close>, a lookup that goes to the network starts
  one \<open>git ls-remote\<close> process, with the ref and its peeled form \<open>ref^{}\<close> both among the
  arguments; and when the output has a peeled line, the lookup returns the hash of the
  (last) peeled line, whether or not a tag-object line is there too.
\<close>

theorem git_ls_remote_peeled:
  assumes "prefix ''refs/tags/'' ref"
    and "LS_REMOTE_CACHE st (url, ref) = None"
    and "local_lookup w url ref = None"
  shows "ls_remote_invocations (snd (git_ls_remote w st url ref))
           = ls_remote_invocations st @ [[''git'', ''ls-remote'', url, ref, ref @ ''^{}'']]
       \<and> (\<forall>out. git_ls_remote_cmd w [''git'', ''ls-remote'', url, ref, ref @ ''^{}''] 90
                   = Exited 0 out
              \<longrightarrow> peeled_hashes (py_splitlines (py_strip out)) \<noteq> []
              \<longrightarrow> fst (git_ls_remote w st url ref)
                    = Inr (Some (last (peeled_hashes (py_splitlines (py_strip out))))))"
proof (intro conjI allI impI)
  have argv: "ls_remote_argv url ref = [''git'', ''ls-remote'', url, ref, ref @ ''^{}'']"
    using assms(1) by (simp add: ls_remote_argv_def refs_to_query_def)
  show "ls_remote_invocations (snd (git_ls_remote w st url ref))
           = ls_remote_invocations st @ [[''git'', ''ls-remote'', url, ref, ref @ ''^{}'']]"
    using assms(2,3)
    by (simp add: git_ls_remote_def argv Let_def cache_store_def split: proc.splits prod.splits)
  fix out
  assume run: "git_ls_remote_cmd w [''git'', ''ls-remote'', url, ref, ref @ ''^{}''] 90 = Exited 0 out"
    and p: "peeled_hashes (py_splitlines (py_strip out)) \<noteq> []"
  let ?d = "last (peeled_hashes (py_splitlines (py_strip out)))"
  have "?d \<in> set (peeled_hashes (py_splitlines (py_strip out)))"
    using p by simp
  then have ne: "?d \<noteq> []"
    by (rule peeled_hashes_nonempty)
  obtain t where parse: "parse_ls_remote (py_splitlines (py_strip out)) (None, None) = (t, Some ?d)"
    using p by (simp add: parse_ls_remote_last)
  show "fst (git_ls_remote w st url ref) = Inr (Some ?d)"
    using assms(2,3) run parse ne
    by (simp add: git_ls_remote_def argv Let_def GIT_CMD_TIMEOUT_def py_or_def py_truthy_def)
qed

theorem git_ls_remote_peeled_witness:
  "prefix ''refs/tags/'' ''refs/tags/v1.2.3''
   \<and> ls_remote_invocations
        (snd (git_ls_remote tag_world fresh_state ''https://github.com/example/proj'' ''refs/tags/v1.2.3''))
       = [[''git'', ''ls-remote'', ''https://github.com/example/proj'',
           ''refs/tags/v1.2.3'', ''refs/tags/v1.2.3^{}'']]
   \<and> fst (git_ls_remote tag_world fresh_state ''https://github.com/example/proj'' ''refs/tags/v1.2.3'')
       = Inr (Some ''bbbbbbbbbbbbbbbbbbbbbbbbbbbbbbbbbbbbbbbb'')"
proof -
  let ?url = "''https://github.com/example/proj''"
  let ?ref = "''refs/tags/v1.2.3''"
  let ?out = "''aaaaaaaaaaaaaaaaaaaaaaaaaaaaaaaaaaaaaaaa'' @ [CHR 0x09] @ ''refs/tags/v1.2.3\<newline>''
              @ ''bbbbbbbbbbbbbbbbbbbbbbbbbbbbbbbbbbbbbbbb'' @ [CHR 0x09] @ ''refs/tags/v1.2.3^{}\<newline>''"
  have h1: "prefix ''refs/tags/'' ?ref" by simp
  have h2: "LS_REMOTE_CACHE fresh_state (?url, ?ref) = None"
    by (simp add: fresh_state_def)
  have h3: "local_lookup tag_world ?url ?ref = None"
    by (simp add: local_lookup_def tag_world_def)
  have run: "git_ls_remote_cmd tag_world [''git'', ''ls-remote'', ?url, ?ref, ?ref @ ''^{}''] 90
               = Exited 0 ?out"
    by (simp add: tag_world_def)
  have p: "peeled_hashes (py_splitlines (py_strip ?out)) = [''bbbbbbbbbbbbbbbbbbbbbbbbbbbbbbbbbbbbbbbb'']"
    by code_simp
  have i: "ls_remote_invocations fresh_state = []"
    by (simp add: fresh_state_def)
  show ?thesis
    using h1 git_ls_remote_peeled [OF h1 h2 h3] run p i by simp
qed

lemma git_ls_remote_keeps:
  "LS_REMOTE_CACHE st k = Some v \<Longrightarrow> LS_REMOTE_CACHE (snd (git_ls_remote w st url ref)) k = Some v"
  by (cases "k = (url, ref)")
     (auto simp: git_ls_remote_def Let_def cache_store_def
           split: option.splits proc.splits prod.splits)

lemma lookups_keep:
  "LS_REMOTE_CACHE st k = Some v \<Longrightarrow> LS_REMOTE_CACHE (lookups st calls) k = Some v"
proof (induction calls arbitrary: st)
  case Nil
  then show ?case by simp
next
  case (Cons c calls)
  obtain w url ref where c: "c = (w, url, ref)"
    by (cases c) auto
  show ?case
    unfolding c lookups.simps
    by (rule Cons.IH) (rule git_ls_remote_keeps [OF Cons.prems])
qed

lemma git_ls_remote_hit:
  "LS_REMOTE_CACHE st (url, ref) = Some v \<Longrightarrow> git_ls_remote w st url ref = (Inr v, st)"
  by (simp add: git_ls_remote_def)

text \<open>
  C8. When the \<open>git ls-remote\<close> of a lookup runs into its timeout of 90 seconds, the lookup
  returns \<open>None\<close> (no exception), the cache holds \<open>None\<close> for the pair and is dirty; and
  after any further lookups, whatever the network does by then, a lookup of the same pair
  returns \<open>None\<close> and leaves the state as it is: no new process is started.
\<close>

theorem git_ls_remote_timeout:
  assumes "LS_REMOTE_CACHE st (url, ref) = None"
    and "local_lookup w url ref = None"
    and "git_ls_remote_cmd w (ls_remote_argv url ref) 90 = TimedOut"
  shows "fst (git_ls_remote w st url ref) = Inr None
       \<and> LS_REMOTE_CACHE (snd (git_ls_remote w st url ref)) (url, ref) = Some None
       \<and> LS_REMOTE_CACHE_DIRTY (snd (git_ls_remote w st url ref))
       \<and> (\<forall>calls w'.
            git_ls_remote w' (lookups (snd (git_ls_remote w st url ref)) calls) url ref
              = (Inr None, lookups (snd (git_ls_remote w st url ref)) calls))"
proof -
  let ?st' = "snd (git_ls_remote w st url ref)"
  have r: "fst (git_ls_remote w st url ref) = Inr None"
    using assms by (simp add: git_ls_remote_def Let_def GIT_CMD_TIMEOUT_def)
  have c: "LS_REMOTE_CACHE ?st' (url, ref) = Some None"
    using assms by (simp add: git_ls_remote_def Let_def GIT_CMD_TIMEOUT_def cache_store_def)
  have d: "LS_REMOTE_CACHE_DIRTY ?st'"
    using assms by (simp add: git_ls_remote_def Let_def GIT_CMD_TIMEOUT_def cache_store_def)
  have l: "\<And>calls w'. git_ls_remote w' (lookups ?st' calls) url ref = (Inr None, lookups ?st' calls)"
    by (rule git_ls_remote_hit) (rule lookups_keep [OF c])
  show ?thesis
    using r c d l by simp
qed

theorem git_ls_remote_timeout_witness:
  "fst (git_ls_remote slow_world fresh_state ''https://github.com/example/proj'' ''refs/tags/v1.2.3'')
     = Inr None
   \<and> fst (git_ls_remote tag_world
            (lookups (snd (git_ls_remote slow_world fresh_state
                             ''https://github.com/example/proj'' ''refs/tags/v1.2.3''))
               [(tag_world, ''https://github.com/example/proj'', ''refs/heads/main'')])
            ''https://github.com/example/proj'' ''refs/tags/v1.2.3'')
     = Inr None"
proof -
  let ?url = "''https://github.com/example/proj''"
  let ?ref = "''refs/tags/v1.2.3''"
  have h1: "LS_REMOTE_CACHE fresh_state (?url, ?ref) = None"
    by (simp add: fresh_state_def)
  have h2: "local_lookup slow_world ?url ?ref = None"
    by (simp add: local_lookup_def slow_world_def)
  have h3: "git_ls_remote_cmd slow_world (ls_remote_argv ?url ?ref) 90 = TimedOut"
    by (simp add: slow_world_def)
  note t = git_ls_remote_timeout [OF h1 h2 h3]
  from t have a: "fst (git_ls_remote slow_world fresh_state ?url ?ref) = Inr None"
    by (rule conjunct1)
  from t have "git_ls_remote tag_world
       (lookups (snd (git_ls_remote slow_world fresh_state ?url ?ref))
          [(tag_world, ?url, ''refs/heads/main'')]) ?url ?ref
     = (Inr None, lookups (snd (git_ls_remote slow_world fresh_state ?url ?ref))
          [(tag_world, ?url, ''refs/heads/main'')])"
    by blast
  then have b: "fst (git_ls_remote tag_world
       (lookups (snd (git_ls_remote slow_world fresh_state ?url ?ref))
          [(tag_world, ?url, ''refs/heads/main'')]) ?url ?ref) = Inr None"
    by (simp only: fst_conv)
  show ?thesis
    using a b by (rule conjI)
qed

section \<open>Properties of the checks on commit hashes\<close>







section \<open>Properties of the sub-directory\<close>












section \<open>The commit verifier at two inputs\<close>

text \<open>
  C3. With the ref hint \<open>refs/tags/v1.2.3\<close>, the commit not fetchable and the tag pointing
  to another commit, \<open>verify_commit_accessible\<close> stores the correction in
  \<open>VERIFY_FALLBACK_COMMITS\<close> and then ends in a \<open>NameError\<close>: it does not return.
\<close>

theorem verify_commit_accessible_moved_tag:
  "fst (verify_commit_accessible moved_tag_world new_verifier ''https://github.com/example/proj''
          old_commit ''refs/tags/v1.2.3'') = Raised NameError
   \<and> VERIFY_FALLBACK_COMMITS
        (snd (verify_commit_accessible moved_tag_world new_verifier
                ''https://github.com/example/proj'' old_commit ''refs/tags/v1.2.3''))
        (''https://github.com/example/proj'', old_commit) = Some new_commit
   \<and> VERIFY_RESULTS
        (snd (verify_commit_accessible moved_tag_world new_verifier
                ''https://github.com/example/proj'' old_commit ''refs/tags/v1.2.3''))
        (''https://github.com/example/proj'', old_commit) = None"
  by code_simp

text \<open>
  C4. With a verified cache entry one day old (maximal age 30 days) and the ref hint
  \<open>refs/heads/main\<close>, \<open>verify_commit_accessible\<close> still asks upstream for the commit
  (\<open>git fetch --depth=1 origin commit\<close>) and, the commit being gone, returns \<open>False\<close>.
\<close>

theorem verify_commit_accessible_fresh_cache:
  "cache_is_fresh gone_world cached_verifier (''https://github.com/example/proj|||'' @ old_commit)
   \<and> fst (verify_commit_accessible gone_world cached_verifier ''https://github.com/example/proj''
            old_commit ''refs/heads/main'') = Returned False
   \<and> effects (snd (verify_commit_accessible gone_world cached_verifier
                      ''https://github.com/example/proj'' old_commit ''refs/heads/main''))
       = [(''https://github.com/example/proj'', [''git'', ''init'', ''--bare'']),
          (''https://github.com/example/proj'',
             [''git'', ''remote'', ''add'', ''origin'', ''https://github.com/example/proj'']),
          (''https://github.com/example/proj'',
             [''git'', ''rev-parse'', ''--verify'', old_commit @ ''^{commit}'']),
          (''https://github.com/example/proj'',
             [''git'', ''fetch'', ''--depth=1'', ''origin'', ''refs/heads/main'']),
          (''https://github.com/example/proj'',
             [''git'', ''fetch'', ''--depth=1'', ''origin'', old_commit])]"
  by code_simp

end
